theory Spec2Isabelle
  imports Main
begin

section \<open>The Runtime Developer page (website/pages/en/who/runtime-developer.js)\<close>

text \<open>
  The page is a React class component whose only method is \<open>render\<close>. The method reads
  \<open>this.props\<close>, builds two URL helpers as closures, and returns a tree of React
  elements. The model below follows the method statement by statement:
  \<^item> JavaScript strings are \<open>string\<close>; a template literal and \<open>+\<close> on strings are \<open>@\<close>;
  \<^item> the truthiness test of the conditional operator on a string is \<open>truthy\<close>;
  \<^item> objects are records, with their remaining fields kept in the record's extension part;
  \<^item> a property that may be \<open>undefined\<close> is an \<open>option\<close>;
  \<^item> destructuring a missing object throws a \<open>TypeError\<close>, which is a value of the
    result type;
  \<^item> the method body contains no assignment, so the component instance is returned as
    it was received.
\<close>

subsection \<open>Site configuration, props and the component instance\<close>

record site_config =
  baseUrl :: string
  docsUrl :: string

record 'c props =
  config :: "'c site_config_scheme option"
  language :: "string option"

record ('c, 'a, 's) component =
  props :: "('c, 'a) props_scheme"
  state :: 's

datatype error = TypeError

subsection \<open>React elements\<close>

text \<open>
  \<open>Div\<close>, \<open>H3\<close>, \<open>P\<close> and \<open>Code\<close> are the host tags used by the page; \<open>HomeSplash\<close>,
  \<open>Timeline\<close>, \<open>Timespot\<close>, \<open>Container\<close> and \<open>Button\<close> are the imported components,
  which stay opaque nodes carrying their props and children.
\<close>

datatype elem_type = Div | H3 | P | Code | HomeSplash | Container | Timeline | Timespot | Button

datatype 'c prop_value = PStr string | PNum int | PConfig "'c site_config_scheme"

datatype 'c element =
  Text string
| Element elem_type "(string \<times> 'c prop_value) list" "'c element list"

subsection \<open>The URL helpers\<close>

definition truthy :: "string \<Rightarrow> bool" where
  "truthy s \<longleftrightarrow> s \<noteq> []"

text \<open>\<^verbatim>\<open>const docsPart = `${docsUrl ? `${docsUrl}/` : ""}`;\<close>\<close>

definition docsPart :: "'c site_config_scheme \<Rightarrow> string" where
  "docsPart siteConfig =
     (if truthy (docsUrl siteConfig) then docsUrl siteConfig @ ''/'' else [])"

text \<open>\<^verbatim>\<open>const langPart = `${language ? `${language}/` : ""}`;\<close>\<close>

definition langPart :: "string \<Rightarrow> string" where
  "langPart lang = (if truthy lang then lang @ ''/'' else [])"

text \<open>
  \<^verbatim>\<open>const docUrl = doc => `${baseUrl}${docsPart}${langPart}${doc}`;\<close>
  The variables the closure captures are its first two arguments.
\<close>

definition docUrl :: "'c site_config_scheme \<Rightarrow> string \<Rightarrow> string \<Rightarrow> string" where
  "docUrl siteConfig lang doc =
     baseUrl siteConfig @ docsPart siteConfig @ langPart lang @ doc"

text \<open>\<^verbatim>\<open>const pageUrl = page => baseUrl + (language ? `${language}/` : "") + page;\<close>\<close>

definition pageUrl :: "'c site_config_scheme \<Rightarrow> string \<Rightarrow> string \<Rightarrow> string" where
  "pageUrl siteConfig lang page =
     (baseUrl siteConfig @ (if truthy lang then lang @ ''/'' else [])) @ page"

subsection \<open>The timeline\<close>

text \<open>
  \<open>RuntimeDeveloperTimeline\<close> is the function component defined inside \<open>render\<close>; it
  captures \<open>docUrl\<close> and \<open>baseUrl\<close>. Text children are the JSX text after JSX's
  whitespace rule (lines trimmed, blank lines dropped, the rest joined by one space).
\<close>

definition RuntimeDeveloperTimeline :: "'c site_config_scheme \<Rightarrow> string \<Rightarrow> 'c element" where
  \<open>RuntimeDeveloperTimeline siteConfig lang =
     Element Timeline [] [
       Element Timespot [] [
         Element H3 [(''className'', PStr ''mt-3'')] [Text ''It's dangerous to go alone!''],
         Element P [] [
           Text (''Before you start your journey you should become familiar with ''
             @ ''resources that can help you along the way. We have high level ''
             @ ''documentation which can help clarify unknown terms or give you a ''
             @ ''bigger picture about what Substrate is. We have a''),
           Text '' '',
           Element Code [] [Text ''[substrate]''],
           Text ('' StackOverflow tag which you can use to ask ''
             @ ''technical questions or find existing answers. Finally we have a ''
             @ ''friendly and technical chat room of developers who are happy to help ''
             @ ''you at any point during your journey.'')],
         Element Button
           [(''variant'', PStr ''secondary''),
            (''href'', PStr (docUrl siteConfig lang ''quickstart/getting-started'')),
            (''className'', PStr ''m-1 primary-color'')]
           [Text ''High Level Docs''],
         Element Button
           [(''variant'', PStr ''secondary''),
            (''href'', PStr ''https://stackoverflow.com/questions/tagged/substrate''),
            (''className'', PStr ''m-1 primary-color'')]
           [Text ''StackOverflow''],
         Element Button
           [(''variant'', PStr ''secondary''),
            (''href'', PStr ''https://riot.im/app/#/room/!HzySYSaIhtyWrwiwEV:matrix.org''),
            (''className'', PStr ''m-1 primary-color'')]
           [Text ''Riot Chat'']],
       Element Timespot [] [
         Element H3 [(''className'', PStr ''mt-3'')] [Text ''Install Substrate''],
         Element P [] [
           Text (''The first thing you need to do is set up Substrate on your computer! ''
             @ ''The instructions vary depending on which operating system you use, ''
             @ ''so take a look at the guide here to find the instructions that work ''
             @ ''for you.'')],
         Element Button
           [(''variant'', PStr ''secondary''),
            (''href'', PStr (docUrl siteConfig lang ''quickstart/installing-substrate'')),
            (''className'', PStr ''m-1 primary-color'')]
           [Text ''Installation Instructions'']],
       Element Timespot [] [
         Element H3 [(''className'', PStr ''mt-3'')] [Text ''Substrate Collectables Workshop''],
         Element P [] [
           Text (''Next follow our Substrate Collectables Workshop to get a deep dive ''
             @ ''into runtime development. We will walk you through the end to end ''
             @ ''process of building a non-fungible token DApp chain, running your ''
             @ ''chain, and even building a user interface!'')],
         Element Button
           [(''variant'', PStr ''secondary''),
            (''href'', PStr
               ''https://substrate-developer-hub.github.io/substrate-collectables-workshop/''),
            (''className'', PStr ''m-1 primary-color'')]
           [Text ''Start the Workshop'']],
       Element Timespot [] [
         Element H3 [(''className'', PStr ''mt-3'')] [Text ''Reference Level Documentation''],
         Element P [] [
           Text (''Now that you are more familiar with Substrate and runtime ''
             @ ''development, you can jump into the reference level documentation ''
             @ ''which lives next to the core Substrate code. To start, you can try ''
             @ ''investigating our Substrate Runtime Module Library (SRML) by ''
             @ ''searching for "srml". You should now be able to read the code which ''
             @ ''powers these modules and extend your knowledge by looking at common ''
             @ ''patterns found within them.'')],
         Element Button
           [(''variant'', PStr ''secondary''),
            (''href'', PStr ''/rustdocs/v1.0/''),
            (''className'', PStr ''m-1 primary-color'')]
           [Text ''Reference Docs'']],
       Element Timespot [] [
         Element H3 [(''className'', PStr ''mt-3'')] [Text ''Buidl''],
         Element P [] [
           Text (''You are now ready to start building your own Runtime logic! Do not ''
             @ ''forget about the community and documentation resources that we have ''
             @ ''equipped you with on this journey.'')],
         Element Button
           [(''variant'', PStr ''secondary''),
            (''href'', PStr (baseUrl siteConfig)),
            (''className'', PStr ''m-1 primary-color'')]
           [Text ''Back to Home'']]]\<close>

subsection \<open>The render method\<close>

text \<open>
  \<^verbatim>\<open>const { config: siteConfig, language = "" } = this.props;\<close>
  gives \<open>language\<close> the default \<open>""\<close> when the prop is \<open>undefined\<close>;
  \<^verbatim>\<open>const { baseUrl, docsUrl } = siteConfig;\<close>
  throws a \<open>TypeError\<close> when \<open>siteConfig\<close> is \<open>undefined\<close>. The element returned
  holds \<open>HomeSplash\<close>, which receives the configuration object and the language, and
  the \<open>Container\<close> around the timeline; the local component \<open>RuntimeDeveloperTimeline\<close>
  is expanded in place. The second component of the result is the component instance
  after the call.
\<close>

definition with_default :: "'v \<Rightarrow> 'v option \<Rightarrow> 'v" where
  "with_default d v = (case v of None \<Rightarrow> d | Some x \<Rightarrow> x)"

definition render ::
  "('c, 'a, 's) component \<Rightarrow> (error + 'c element) \<times> ('c, 'a, 's) component" where
  "render this =
     (let lang = with_default [] (language (props this)) in
      case config (props this) of
        None \<Rightarrow> (Inl TypeError, this)
      | Some siteConfig \<Rightarrow>
          (Inr (Element Div [] [
             Element HomeSplash
               [(''siteConfig'', PConfig siteConfig),
                (''language'', PStr lang),
                (''title'', PStr ''Runtime Developer''),
                (''tagline'', PStr ''So you wanna build blockchains...''),
                (''padding'', PNum 0)]
               [],
             Element Container [] [RuntimeDeveloperTimeline siteConfig lang]]),
           this))"

subsection \<open>Reading the rendered tree\<close>

text \<open>The value of a string-valued prop, when the element has it.\<close>

definition str_prop :: "string \<Rightarrow> (string \<times> 'c prop_value) list \<Rightarrow> string option" where
  "str_prop k ps = (case map_of ps k of Some (PStr v) \<Rightarrow> Some v | _ \<Rightarrow> None)"

text \<open>All \<open>href\<close> props of a tree, in document order.\<close>

fun hrefs :: "'c element \<Rightarrow> string list" where
  "hrefs (Text t) = []"
| "hrefs (Element ty ps cs) =
     (case str_prop ''href'' ps of None \<Rightarrow> [] | Some u \<Rightarrow> [u]) @ concat (map hrefs cs)"

text \<open>The text of a tree, in document order (what the DOM calls \<open>textContent\<close>).\<close>

fun text_content :: "'c element \<Rightarrow> string" where
  "text_content (Text t) = t"
| "text_content (Element ty ps cs) = concat (map text_content cs)"

text \<open>The \<open>Timespot\<close> elements of a tree, outermost first, in document order.\<close>

fun timespots :: "'c element \<Rightarrow> 'c element list" where
  "timespots (Text t) = []"
| "timespots (Element ty ps cs) =
     (if ty = Timespot then [Element ty ps cs] else concat (map timespots cs))"

text \<open>The type of an element; a text node has none.\<close>

fun elem_type_of :: "'c element \<Rightarrow> elem_type option" where
  "elem_type_of (Text t) = None"
| "elem_type_of (Element ty ps cs) = Some ty"

text \<open>The \<open>href\<close> props of the \<open>Button\<close> elements whose text is the given label.\<close>

fun button_hrefs :: "string \<Rightarrow> 'c element \<Rightarrow> string list" where
  "button_hrefs lbl (Text t) = []"
| "button_hrefs lbl (Element ty ps cs) =
     (if ty = Button \<and> concat (map text_content cs) = lbl
      then (case str_prop ''href'' ps of None \<Rightarrow> [] | Some u \<Rightarrow> [u]) else [])
     @ concat (map (button_hrefs lbl) cs)"

text \<open>An action button is a \<open>Button\<close> element that carries an \<open>href\<close>.\<close>

fun is_button :: "'c element \<Rightarrow> bool" where
  "is_button (Text t) \<longleftrightarrow> False"
| "is_button (Element ty ps cs) \<longleftrightarrow> ty = Button \<and> str_prop ''href'' ps \<noteq> None"

text \<open>
  A timeline entry is a \<open>Timespot\<close> whose children are one \<open>h3\<close> heading, one \<open>p\<close>
  paragraph and then action buttons only.
\<close>

fun is_entry :: "'c element \<Rightarrow> bool" where
  "is_entry (Element ty ps (h # p # bs)) \<longleftrightarrow>
     ty = Timespot \<and> elem_type_of h = Some H3 \<and> elem_type_of p = Some P
     \<and> list_all is_button bs"
| "is_entry e \<longleftrightarrow> False"

text \<open>Heading, body text and button labels of a timeline entry.\<close>

fun entry_content :: "'c element \<Rightarrow> string \<times> string \<times> string list" where
  "entry_content (Element ty ps (h # p # bs)) =
     (text_content h, text_content p, map text_content bs)"
| "entry_content e = ([], [], [])"

text \<open>
  The form of a documentation URL: \<open>baseUrl\<close>, the docs segment, the language segment
  and then any path. \<open>concatenation_form\<close> is the executable test for it.
\<close>

definition concatenation_form :: "'c site_config_scheme \<Rightarrow> string \<Rightarrow> string \<Rightarrow> bool" where
  "concatenation_form siteConfig lang u \<longleftrightarrow>
     take (length (docUrl siteConfig lang [])) u = docUrl siteConfig lang []"

text \<open>The URLs that the page writes as literals.\<close>

definition literal_urls :: "string list" where
  "literal_urls =
     [''https://stackoverflow.com/questions/tagged/substrate'',
      ''https://riot.im/app/#/room/!HzySYSaIhtyWrwiwEV:matrix.org'',
      ''https://substrate-developer-hub.github.io/substrate-collectables-workshop/'',
      ''/rustdocs/v1.0/'']"

text \<open>The hyperlinks of the page a component instance renders; none when rendering fails.\<close>

definition rendered_hrefs :: "('c, 'a, 's) component \<Rightarrow> string list" where
  "rendered_hrefs this = (case fst (render this) of Inl err \<Rightarrow> [] | Inr e \<Rightarrow> hrefs e)"

subsection \<open>Two concrete component instances\<close>

definition example_config :: site_config where
  "example_config = \<lparr>baseUrl = ''/'', docsUrl = ''docs''\<rparr>"

definition example_this :: "(unit, unit, nat) component" where
  "example_this =
     \<lparr>props = \<lparr>config = Some example_config, language = Some ''en''\<rparr>, state = 0\<rparr>"

definition other_config :: site_config where
  "other_config = \<lparr>baseUrl = ''/site/'', docsUrl = []\<rparr>"

definition other_this :: "(unit, unit, nat) component" where
  "other_this = \<lparr>props = \<lparr>config = Some other_config, language = None\<rparr>, state = 1\<rparr>"

section \<open>Auxiliary facts\<close>

text \<open>\<open>concatenation_form\<close> holds exactly of the strings \<open>docUrl\<close> can return.\<close>

lemma concatenation_form_iff:
  "concatenation_form siteConfig lang u \<longleftrightarrow> (\<exists>path. u = docUrl siteConfig lang path)"
proof
  assume "concatenation_form siteConfig lang u"
  then have "u = docUrl siteConfig lang [] @ drop (length (docUrl siteConfig lang [])) u"
    by (metis append_take_drop_id concatenation_form_def)
  then have "u = docUrl siteConfig lang (drop (length (docUrl siteConfig lang [])) u)"
    by (simp add: docUrl_def)
  then show "\<exists>path. u = docUrl siteConfig lang path" ..
next
  assume "\<exists>path. u = docUrl siteConfig lang path"
  then obtain path where "u = docUrl siteConfig lang path" ..
  then show "concatenation_form siteConfig lang u"
    by (simp add: concatenation_form_def docUrl_def)
qed

text \<open>The two outcomes of \<open>render\<close>.\<close>

lemma render_no_config:
  "config (props this) = None \<Longrightarrow> fst (render this) = Inl TypeError"
  by (simp add: render_def Let_def)

lemma render_config:
  "config (props this) = Some siteConfig \<Longrightarrow>
   fst (render this) =
     Inr (Element Div [] [
       Element HomeSplash
         [(''siteConfig'', PConfig siteConfig),
          (''language'', PStr (with_default [] (language (props this)))),
          (''title'', PStr ''Runtime Developer''),
          (''tagline'', PStr ''So you wanna build blockchains...''),
          (''padding'', PNum 0)]
         [],
       Element Container []
         [RuntimeDeveloperTimeline siteConfig (with_default [] (language (props this)))]])"
  by (simp add: render_def Let_def)

text \<open>The links of the timeline, in document order, and the link behind each label.\<close>

lemma hrefs_timeline:
  "hrefs (RuntimeDeveloperTimeline siteConfig lang) =
     [docUrl siteConfig lang ''quickstart/getting-started'',
      ''https://stackoverflow.com/questions/tagged/substrate'',
      ''https://riot.im/app/#/room/!HzySYSaIhtyWrwiwEV:matrix.org'',
      docUrl siteConfig lang ''quickstart/installing-substrate'',
      ''https://substrate-developer-hub.github.io/substrate-collectables-workshop/'',
      ''/rustdocs/v1.0/'',
      baseUrl siteConfig]"
  by (simp add: RuntimeDeveloperTimeline_def str_prop_def)

lemma rendered_hrefs_config:
  assumes "config (props this) = Some siteConfig"
  shows "rendered_hrefs this =
     [docUrl siteConfig (with_default [] (language (props this))) ''quickstart/getting-started'',
      ''https://stackoverflow.com/questions/tagged/substrate'',
      ''https://riot.im/app/#/room/!HzySYSaIhtyWrwiwEV:matrix.org'',
      docUrl siteConfig (with_default [] (language (props this)))
        ''quickstart/installing-substrate'',
      ''https://substrate-developer-hub.github.io/substrate-collectables-workshop/'',
      ''/rustdocs/v1.0/'',
      baseUrl siteConfig]"
  by (simp add: rendered_hrefs_def render_config [OF assms] hrefs_timeline str_prop_def)

lemma button_hrefs_timeline:
  "button_hrefs ''High Level Docs'' (RuntimeDeveloperTimeline siteConfig lang) =
     [docUrl siteConfig lang ''quickstart/getting-started'']"
  "button_hrefs ''Installation Instructions'' (RuntimeDeveloperTimeline siteConfig lang) =
     [docUrl siteConfig lang ''quickstart/installing-substrate'']"
  "button_hrefs ''Reference Docs'' (RuntimeDeveloperTimeline siteConfig lang) =
     [''/rustdocs/v1.0/'']"
  "button_hrefs ''Back to Home'' (RuntimeDeveloperTimeline siteConfig lang) =
     [baseUrl siteConfig]"
  by (simp_all add: RuntimeDeveloperTimeline_def str_prop_def)

text \<open>
  The entries of the rendered timeline carry the same texts as those of the timeline
  built from the empty configuration.
\<close>

lemma timespots_render:
  assumes "config (props this) = Some siteConfig"
  shows "\<exists>e. fst (render this) = Inr e \<and> length (timespots e) = 5 \<and>
     map entry_content (timespots e) =
     map entry_content (timespots (RuntimeDeveloperTimeline \<lparr>baseUrl = [], docsUrl = []\<rparr> []))"
  by (simp add: render_config [OF assms] RuntimeDeveloperTimeline_def)

section \<open>Properties of the URL helpers\<close>

text \<open>
  C1: for every configuration, language string and path string, \<open>docUrl\<close> returns
  \<open>baseUrl\<close>, then \<open>docsUrl\<close> and a slash when \<open>docsUrl\<close> is non-empty, then the language
  and a slash when the language is non-empty, then the path.
\<close>

theorem docUrl_concatenation:
  "docUrl siteConfig lang path =
     baseUrl siteConfig
     @ (if docsUrl siteConfig \<noteq> [] then docsUrl siteConfig @ ''/'' else [])
     @ (if lang \<noteq> [] then lang @ ''/'' else [])
     @ path"
  by (simp add: docUrl_def docsPart_def langPart_def truthy_def)

text \<open>
  C2: with \<open>baseUrl = "/"\<close>, \<open>docsUrl = "docs"\<close>, language \<open>"en"\<close> and path
  \<open>"quickstart/getting-started"\<close>, \<open>docUrl\<close> returns \<open>"/docs/en/quickstart/getting-started"\<close>.
\<close>

theorem docUrl_example:
  "docUrl \<lparr>baseUrl = ''/'', docsUrl = ''docs''\<rparr> ''en'' ''quickstart/getting-started''
     = ''/docs/en/quickstart/getting-started''"
  by (simp add: docUrl_def docsPart_def langPart_def truthy_def)

section \<open>Hyperlinks of the rendered page\<close>

text \<open>
  C3, as stated, fails. The claim: every hyperlink URL of the rendered page is a
  concatenation of the base, docs, language and path segments of the configuration.
  With \<open>baseUrl = "/"\<close>, \<open>docsUrl = "docs"\<close> and language \<open>"en"\<close> the page links to
  \<open>https://stackoverflow.com/questions/tagged/substrate\<close>, which is not of the form
  \<open>docUrl\<close> produces and does not even begin with \<open>baseUrl\<close>.
\<close>

theorem external_link_counterexample:
  "''https://stackoverflow.com/questions/tagged/substrate'' \<in> set (rendered_hrefs example_this)
   \<and> \<not> concatenation_form example_config ''en''
         ''https://stackoverflow.com/questions/tagged/substrate''
   \<and> take (length (baseUrl example_config))
         ''https://stackoverflow.com/questions/tagged/substrate'' \<noteq> baseUrl example_config"
proof -
  have c: "config (props example_this) = Some example_config"
    by (simp add: example_this_def)
  show ?thesis
    by (simp add: rendered_hrefs_config [OF c] concatenation_form_def docUrl_def docsPart_def
        langPart_def truthy_def example_config_def)
qed

text \<open>
  C3, amended: when a configuration is given, rendering succeeds and every \<open>href\<close> of the
  rendered page is a concatenation of \<open>baseUrl\<close>, the docs segment, the language segment
  and a path, or is \<open>baseUrl\<close> itself, or is one of the four URLs the page writes as
  literals. (The imported \<open>HomeSplash\<close> is an opaque node; links it may add are not part
  of this page's code.)
\<close>

theorem hrefs_forms:
  assumes "config (props this) = Some siteConfig"
  shows "\<exists>e. fst (render this) = Inr e \<and>
     (\<forall>u \<in> set (hrefs e).
        concatenation_form siteConfig (with_default [] (language (props this))) u
        \<or> u = baseUrl siteConfig \<or> u \<in> set literal_urls)"
proof -
  from render_config [OF assms] obtain e where e: "fst (render this) = Inr e"
    by blast
  then have "hrefs e = rendered_hrefs this"
    by (simp add: rendered_hrefs_def)
  then have "\<forall>u \<in> set (hrefs e).
        concatenation_form siteConfig (with_default [] (language (props this))) u
        \<or> u = baseUrl siteConfig \<or> u \<in> set literal_urls"
    unfolding rendered_hrefs_config [OF assms]
    by (simp add: concatenation_form_iff literal_urls_def del: ex_simps) blast
  with e show ?thesis by blast
qed

theorem hrefs_forms_witness:
  "config (props example_this) = Some example_config \<and>
   (\<exists>e. fst (render example_this) = Inr e \<and>
     (\<forall>u \<in> set (hrefs e).
        concatenation_form example_config (with_default [] (language (props example_this))) u
        \<or> u = baseUrl example_config \<or> u \<in> set literal_urls))"
proof -
  have c: "config (props example_this) = Some example_config"
    by (simp add: example_this_def)
  from hrefs_forms [OF c] c show ?thesis by blast
qed

text \<open>
  C9: for every configuration, the href of the "Back to Home" button is \<open>baseUrl\<close>
  itself, with nothing appended.
\<close>

theorem back_to_home_href:
  assumes "config (props this) = Some siteConfig"
  shows "\<exists>e. fst (render this) = Inr e
     \<and> button_hrefs ''Back to Home'' e = [baseUrl siteConfig]"
  by (simp add: render_config [OF assms] button_hrefs_timeline)

theorem back_to_home_href_witness:
  "config (props example_this) = Some example_config
   \<and> (\<exists>e. fst (render example_this) = Inr e \<and> button_hrefs ''Back to Home'' e = [''/''])"
proof -
  have c: "config (props example_this) = Some example_config"
    by (simp add: example_this_def)
  from back_to_home_href [OF c] c show ?thesis
    by (simp add: example_config_def)
qed

text \<open>
  C10: for every configuration, the href of the "Reference Docs" button is the constant
  \<open>/rustdocs/v1.0/\<close>, whatever \<open>baseUrl\<close>, \<open>docsUrl\<close> and the language are.
\<close>

theorem reference_docs_href:
  assumes "config (props this) = Some siteConfig"
  shows "\<exists>e. fst (render this) = Inr e
     \<and> button_hrefs ''Reference Docs'' e = [''/rustdocs/v1.0/'']"
  by (simp add: render_config [OF assms] button_hrefs_timeline)

theorem reference_docs_href_witness:
  "config (props other_this) = Some other_config
   \<and> (\<exists>e. fst (render other_this) = Inr e
        \<and> button_hrefs ''Reference Docs'' e = [''/rustdocs/v1.0/''])"
proof -
  have c: "config (props other_this) = Some other_config"
    by (simp add: other_this_def)
  from reference_docs_href [OF c] c show ?thesis by blast
qed

section \<open>Structure and static content of the rendered page\<close>

text \<open>
  C5: for every configuration, the rendered output is one \<open>HomeSplash\<close> banner followed
  by the container of the timeline; the timeline is a fixed sequence of five entries,
  each with one heading, one paragraph and then action buttons only, every button
  carrying an \<open>href\<close>.
\<close>

theorem render_structure:
  assumes "config (props this) = Some siteConfig"
  shows "\<exists>splash entries.
     fst (render this) =
       Inr (Element Div [] [splash, Element Container [] [Element Timeline [] entries]])
     \<and> elem_type_of splash = Some HomeSplash
     \<and> list_all is_entry entries
     \<and> map (fst \<circ> entry_content) entries =
         [''It's dangerous to go alone!'', ''Install Substrate'',
          ''Substrate Collectables Workshop'', ''Reference Level Documentation'', ''Buidl'']"
  by (simp add: render_config [OF assms] RuntimeDeveloperTimeline_def str_prop_def)

theorem render_structure_witness:
  "config (props example_this) = Some example_config \<and>
   (\<exists>splash entries.
     fst (render example_this) =
       Inr (Element Div [] [splash, Element Container [] [Element Timeline [] entries]])
     \<and> elem_type_of splash = Some HomeSplash
     \<and> list_all is_entry entries
     \<and> map (fst \<circ> entry_content) entries =
         [''It's dangerous to go alone!'', ''Install Substrate'',
          ''Substrate Collectables Workshop'', ''Reference Level Documentation'', ''Buidl''])"
proof -
  have c: "config (props example_this) = Some example_config"
    by (simp add: example_this_def)
  from render_structure [OF c] c show ?thesis by blast
qed

text \<open>
  C6: for any two configurations and languages, the headings, body texts and button
  labels of the five timeline entries of the two rendered pages are the same.
\<close>

theorem static_content_independent:
  fixes this :: "('c, 'a, 's) component" and this' :: "('d, 'b, 't) component"
  assumes "config (props this) = Some siteConfig"
    and "config (props this') = Some siteConfig'"
  shows "\<exists>e e'. fst (render this) = Inr e \<and> fst (render this') = Inr e'
     \<and> length (timespots e) = 5
     \<and> map entry_content (timespots e) = map entry_content (timespots e')"
  using timespots_render [OF assms(1)] timespots_render [OF assms(2)] by force

theorem static_content_independent_witness:
  "config (props example_this) = Some example_config
   \<and> config (props other_this) = Some other_config
   \<and> (\<exists>e e'. fst (render example_this) = Inr e \<and> fst (render other_this) = Inr e'
     \<and> length (timespots e) = 5
     \<and> map entry_content (timespots e) = map entry_content (timespots e'))"
proof -
  have c: "config (props example_this) = Some example_config"
    by (simp add: example_this_def)
  have c': "config (props other_this) = Some other_config"
    by (simp add: other_this_def)
  from static_content_independent [OF c c'] c c' show ?thesis by blast
qed

section \<open>Effects and the optional language\<close>

text \<open>
  C7: rendering does not mutate its inputs. After \<open>render\<close>, on the failing path as on the
  successful one, the component instance is the one the method received: its
  \<open>siteConfig\<close> object, its \<open>language\<close> prop and its state are unchanged.
\<close>

theorem render_frame:
  "snd (render this) = this
   \<and> config (props (snd (render this))) = config (props this)
   \<and> language (props (snd (render this))) = language (props this)
   \<and> state (snd (render this)) = state this"
proof -
  have "snd (render this) = this"
    by (simp add: render_def Let_def split: option.split)
  then show ?thesis by simp
qed

text \<open>
  C8: the language is optional. When the \<open>language\<close> prop is absent or empty and a
  configuration is given, the language the method works with is the empty string,
  \<open>docUrl\<close> returns \<open>baseUrl\<close>, the docs segment and the path for every path, rendering
  succeeds, and the two documentation buttons of the rendered page carry such URLs.
\<close>

theorem language_optional:
  assumes "config (props this) = Some siteConfig"
    and "language (props this) = None \<or> language (props this) = Some []"
  shows "with_default [] (language (props this)) = []
     \<and> (\<forall>path. docUrl siteConfig (with_default [] (language (props this))) path =
           baseUrl siteConfig
           @ (if docsUrl siteConfig \<noteq> [] then docsUrl siteConfig @ ''/'' else [])
           @ path)
     \<and> (\<exists>e. fst (render this) = Inr e
          \<and> button_hrefs ''High Level Docs'' e =
              [baseUrl siteConfig
               @ (if docsUrl siteConfig \<noteq> [] then docsUrl siteConfig @ ''/'' else [])
               @ ''quickstart/getting-started'']
          \<and> button_hrefs ''Installation Instructions'' e =
              [baseUrl siteConfig
               @ (if docsUrl siteConfig \<noteq> [] then docsUrl siteConfig @ ''/'' else [])
               @ ''quickstart/installing-substrate''])"
proof -
  from assms(2) have l: "with_default [] (language (props this)) = []"
    by (auto simp: with_default_def)
  have d: "docUrl siteConfig [] path =
           baseUrl siteConfig
           @ (if docsUrl siteConfig \<noteq> [] then docsUrl siteConfig @ ''/'' else [])
           @ path" for path
    by (simp add: docUrl_def docsPart_def langPart_def truthy_def)
  have "button_hrefs lbl (Element Div [] [Element HomeSplash ps [], Element Container [] [t]])
          = button_hrefs lbl t" for lbl ps and t :: "'a element"
    by simp
  then show ?thesis
    by (simp add: render_config [OF assms(1)] l d button_hrefs_timeline)
qed

theorem language_optional_witness:
  "config (props other_this) = Some other_config
   \<and> (language (props other_this) = None \<or> language (props other_this) = Some [])
   \<and> docUrl other_config (with_default [] (language (props other_this)))
        ''quickstart/getting-started'' = ''/site/quickstart/getting-started''
   \<and> (\<exists>e. fst (render other_this) = Inr e
          \<and> button_hrefs ''High Level Docs'' e = [''/site/quickstart/getting-started''])"
proof -
  have c: "config (props other_this) = Some other_config"
    by (simp add: other_this_def)
  have l: "language (props other_this) = None \<or> language (props other_this) = Some []"
    by (simp add: other_this_def)
  note t = language_optional [OF c l]
  from t have "docUrl other_config (with_default [] (language (props other_this)))
        ''quickstart/getting-started'' =
      baseUrl other_config
      @ (if docsUrl other_config \<noteq> [] then docsUrl other_config @ ''/'' else [])
      @ ''quickstart/getting-started''"
    by blast
  then have d: "docUrl other_config (with_default [] (language (props other_this)))
        ''quickstart/getting-started'' = ''/site/quickstart/getting-started''"
    by (simp add: other_config_def)
  from t have "\<exists>e. fst (render other_this) = Inr e
          \<and> button_hrefs ''High Level Docs'' e =
              [baseUrl other_config
               @ (if docsUrl other_config \<noteq> [] then docsUrl other_config @ ''/'' else [])
               @ ''quickstart/getting-started'']"
    by blast
  then have e: "\<exists>e. fst (render other_this) = Inr e
          \<and> button_hrefs ''High Level Docs'' e = [''/site/quickstart/getting-started'']"
    by (simp add: other_config_def)
  from c l d e show ?thesis by blast
qed

end
